theory Spec2Isabelle
  imports Main "HOL-Library.Word"
begin

unbundle bit_operations_syntax

section \<open>API notes data types (include/swift/APINotes/Types.h)\<close>

text \<open>
  The header is embedded with \<open>unsigned\<close> as a 32-bit word and \<open>uint64_t\<close> as a
  64-bit word. A bit-field of one bit is a \<open>bool\<close>, a wider bit-field is a word of its
  declared width, and storing into it truncates (\<open>ucast\<close>). The \<open>assert\<close>s are
  enabled (a build without \<open>NDEBUG\<close>): a failing assertion is the result
  \<open>Inl (AssertionFailed ...)\<close>. A shift whose count is not smaller than the width of
  its promoted left operand has no defined value in C++; the model returns
  \<open>Inl UndefinedShift\<close> there instead of choosing one.
\<close>

subsection \<open>Enumerations\<close>

text \<open>
  \<open>enum class NullableKind : unsigned\<close>: a value of this type is any \<open>unsigned\<close>; the
  three enumerators are the values 0, 1 and 2, and both \<open>static_cast\<close>s between the
  enumeration and \<open>unsigned\<close> keep the value.
\<close>

type_synonym NullableKind = "32 word"

definition NonNullable :: NullableKind where
  "NonNullable = 0"

definition Nullable :: NullableKind where
  "Nullable = 1"

definition Unknown :: NullableKind where
  "Unknown = 2"

text \<open>The enumerators of \<open>NullableKind\<close>, the values a caller of the setters passes.\<close>

definition NullableKind_enumerators :: "NullableKind set" where
  "NullableKind_enumerators = {NonNullable, Nullable, Unknown}"

text \<open>\<open>enum class FactoryAsInitKind\<close>, enumerators 0, 1 and 2.\<close>

type_synonym FactoryAsInitKind = "32 word"

definition Infer :: FactoryAsInitKind where
  "Infer = 0"

definition AsClassMethod :: FactoryAsInitKind where
  "AsClassMethod = 1"

definition AsInitializer :: FactoryAsInitKind where
  "AsInitializer = 2"

subsection \<open>Faults\<close>

datatype assertion =
    Assert_index_in_payload
  | Assert_kind_below_mask
  | Assert_NullabilityAudited

datatype fault =
    AssertionFailed assertion
  | UndefinedShift

subsection \<open>ObjCClassInfo\<close>

record ObjCClassInfo =
  HasDefaultNullability :: bool
  DefaultNullability :: "2 word"

definition ObjCClassInfo_ctor :: ObjCClassInfo where
  "ObjCClassInfo_ctor = \<lparr>HasDefaultNullability = False, DefaultNullability = 0\<rparr>"

definition getDefaultNullability :: "ObjCClassInfo \<Rightarrow> NullableKind option" where
  "getDefaultNullability c =
     (if HasDefaultNullability c then Some (ucast (DefaultNullability c)) else None)"

definition setDefaultNullability :: "NullableKind \<Rightarrow> ObjCClassInfo \<Rightarrow> ObjCClassInfo" where
  "setDefaultNullability kind c =
     c\<lparr>HasDefaultNullability := True, DefaultNullability := ucast kind\<rparr>"

text \<open>\<open>operator==\<close> of \<open>ObjCClassInfo\<close>.\<close>

definition ObjCClassInfo_eq :: "ObjCClassInfo \<Rightarrow> ObjCClassInfo \<Rightarrow> bool" where
  "ObjCClassInfo_eq lhs rhs \<longleftrightarrow>
     HasDefaultNullability lhs = HasDefaultNullability rhs \<and>
     DefaultNullability lhs = DefaultNullability rhs"

text \<open>
  The fields are private: an \<open>ObjCClassInfo\<close> a caller can hold is the default
  constructed one after some calls of the only mutator, in order.
\<close>

definition ObjCClassInfo_after :: "NullableKind list \<Rightarrow> ObjCClassInfo" where
  "ObjCClassInfo_after kinds = fold setDefaultNullability kinds ObjCClassInfo_ctor"

subsection \<open>ObjCPropertyInfo\<close>

record ObjCPropertyInfo =
  PropNullabilityAudited :: bool
  PropNullable :: "2 word"

definition ObjCPropertyInfo_ctor :: ObjCPropertyInfo where
  "ObjCPropertyInfo_ctor = \<lparr>PropNullabilityAudited = False, PropNullable = 0\<rparr>"

definition getNullability :: "ObjCPropertyInfo \<Rightarrow> NullableKind option" where
  "getNullability p =
     (if PropNullabilityAudited p then Some (ucast (PropNullable p)) else None)"

definition setNullabilityAudited :: "NullableKind \<Rightarrow> ObjCPropertyInfo \<Rightarrow> ObjCPropertyInfo" where
  "setNullabilityAudited kind p =
     p\<lparr>PropNullabilityAudited := True, PropNullable := ucast kind\<rparr>"

text \<open>\<open>operator==\<close> of \<open>ObjCPropertyInfo\<close>.\<close>

definition ObjCPropertyInfo_eq :: "ObjCPropertyInfo \<Rightarrow> ObjCPropertyInfo \<Rightarrow> bool" where
  "ObjCPropertyInfo_eq lhs rhs \<longleftrightarrow>
     PropNullabilityAudited lhs = PropNullabilityAudited rhs \<and>
     PropNullable lhs = PropNullable rhs"

definition ObjCPropertyInfo_after :: "NullableKind list \<Rightarrow> ObjCPropertyInfo" where
  "ObjCPropertyInfo_after kinds = fold setNullabilityAudited kinds ObjCPropertyInfo_ctor"

subsection \<open>ObjCMethodInfo\<close>

definition NullableKindMask :: "32 word" where
  "NullableKindMask = 0x3"

definition NullableKindSize :: "32 word" where
  "NullableKindSize = 2"

record ObjCMethodInfo =
  DesignatedInit :: bool
  FactoryAsInit :: "2 word"
  Unavailable :: bool
  NullabilityAudited :: bool
  NumAdjustedNullable :: "8 word"
  NullabilityPayload :: "64 word"
  UnavailableMsg :: string

definition ObjCMethodInfo_ctor :: ObjCMethodInfo where
  "ObjCMethodInfo_ctor =
     \<lparr>DesignatedInit = False, FactoryAsInit = ucast Infer, Unavailable = False,
      NullabilityAudited = False, NumAdjustedNullable = 0, NullabilityPayload = 0,
      UnavailableMsg = []\<rparr>"

definition getFactoryAsInitKind :: "ObjCMethodInfo \<Rightarrow> FactoryAsInitKind" where
  "getFactoryAsInitKind m = ucast (FactoryAsInit m)"

definition setFactoryAsInitKind :: "FactoryAsInitKind \<Rightarrow> ObjCMethodInfo \<Rightarrow> ObjCMethodInfo" where
  "setFactoryAsInitKind kind m = m\<lparr>FactoryAsInit := ucast kind\<rparr>"

text \<open>
  \<open>addTypeInfo\<close>: the three assertions in the order of the source, the bound of the
  first being \<open>(sizeof(NullabilityPayload) * CHAR_BIT) / NullableKindSize = 64 / 2\<close>.
  \<open>kindValue\<close> is an \<open>unsigned\<close>, and so is the shifted \<open>static_cast<unsigned>(kind)\<close>:
  the shift is one of a 32-bit value, undefined from a count of 32 on; \<open>|=\<close> then
  widens \<open>kindValue\<close> with zeros.
\<close>

definition addTypeInfo :: "32 word \<Rightarrow> NullableKind \<Rightarrow> ObjCMethodInfo \<Rightarrow> fault + ObjCMethodInfo" where
  "addTypeInfo index kind m =
     (if \<not> unat index \<le> (8 * 8) div unat NullableKindSize
        then Inl (AssertionFailed Assert_index_in_payload)
      else if \<not> kind < NullableKindMask
        then Inl (AssertionFailed Assert_kind_below_mask)
      else if \<not> NullabilityAudited m
        then Inl (AssertionFailed Assert_NullabilityAudited)
      else if 32 \<le> unat (index * NullableKindSize)
        then Inl UndefinedShift
      else
        let kindValue = (push_bit (unat (index * NullableKindSize)) kind :: 32 word)
        in Inr (m\<lparr>NullabilityPayload := NullabilityPayload m OR ucast kindValue\<rparr>))"

text \<open>
  \<open>getTypeInfo\<close>: \<open>NumAdjustedNullable\<close> is converted to \<open>unsigned\<close> for the comparison;
  the shift is one of the 64-bit payload, undefined from a count of 64 on; the
  masked value is converted to the 32-bit enumeration.
\<close>

definition getTypeInfo :: "32 word \<Rightarrow> ObjCMethodInfo \<Rightarrow> fault + NullableKind" where
  "getTypeInfo index m =
     (if \<not> NullabilityAudited m
        then Inl (AssertionFailed Assert_NullabilityAudited)
      else if index > ucast (NumAdjustedNullable m)
        then Inr NonNullable
      else if 64 \<le> unat (index * NullableKindSize)
        then Inl UndefinedShift
      else Inr (ucast (drop_bit (unat (index * NullableKindSize)) (NullabilityPayload m)
                       AND ucast NullableKindMask)))"

definition getParamTypeInfo :: "32 word \<Rightarrow> ObjCMethodInfo \<Rightarrow> fault + NullableKind" where
  "getParamTypeInfo index m = getTypeInfo (index + 1) m"

definition getReturnTypeInfo :: "ObjCMethodInfo \<Rightarrow> fault + NullableKind" where
  "getReturnTypeInfo m = getTypeInfo 0 m"

text \<open>\<open>operator==\<close> of \<open>ObjCMethodInfo\<close>.\<close>

definition ObjCMethodInfo_eq :: "ObjCMethodInfo \<Rightarrow> ObjCMethodInfo \<Rightarrow> bool" where
  "ObjCMethodInfo_eq lhs rhs \<longleftrightarrow>
     DesignatedInit lhs = DesignatedInit rhs \<and>
     FactoryAsInit lhs = FactoryAsInit rhs \<and>
     Unavailable lhs = Unavailable rhs \<and>
     NullabilityAudited lhs = NullabilityAudited rhs \<and>
     NumAdjustedNullable lhs = NumAdjustedNullable rhs \<and>
     NullabilityPayload lhs = NullabilityPayload rhs \<and>
     UnavailableMsg lhs = UnavailableMsg rhs"

subsection \<open>Callers\<close>

text \<open>
  The fields of \<open>ObjCMethodInfo\<close> are public: a caller that has audited a method
  sets \<open>NullabilityAudited\<close> and \<open>NumAdjustedNullable\<close> on a default constructed
  record and then calls \<open>addTypeInfo\<close> once for each position.
\<close>

definition audited_method :: "8 word \<Rightarrow> ObjCMethodInfo" where
  "audited_method n = ObjCMethodInfo_ctor\<lparr>NullabilityAudited := True, NumAdjustedNullable := n\<rparr>"

text \<open>A sequence of \<open>addTypeInfo\<close> calls, stopping at the first fault.\<close>

fun addTypeInfo_calls :: "(32 word \<times> NullableKind) list \<Rightarrow> ObjCMethodInfo \<Rightarrow> fault + ObjCMethodInfo" where
  "addTypeInfo_calls [] m = Inr m"
| "addTypeInfo_calls ((index, kind) # calls) m =
     (case addTypeInfo index kind m of
        Inl f \<Rightarrow> Inl f
      | Inr m' \<Rightarrow> addTypeInfo_calls calls m')"

text \<open>Whether a call ended in a failed assertion.\<close>

fun assertion_fires :: "fault + 'a \<Rightarrow> bool" where
  "assertion_fires (Inl (AssertionFailed a)) = True"
| "assertion_fires (Inl UndefinedShift) = False"
| "assertion_fires (Inr r) = False"

section \<open>Class and property records\<close>

lemma ucast_enumerator_2:
  "v \<in> NullableKind_enumerators \<Longrightarrow> (ucast (ucast v :: 2 word) :: 32 word) = v"
  by (auto simp: NullableKind_enumerators_def NonNullable_def Nullable_def Unknown_def)

text \<open>
  Claim C5. A default constructed \<open>ObjCClassInfo\<close> has no default nullability, and on
  any \<open>ObjCClassInfo\<close>, whatever it held before, \<open>setDefaultNullability\<close> with an
  enumerator \<open>v\<close> followed by \<open>getDefaultNullability\<close> yields \<open>v\<close>. Both operations are
  total functions: there is no failing branch.
\<close>

theorem class_default_nullability_roundtrip:
  "getDefaultNullability ObjCClassInfo_ctor = None \<and>
   (\<forall>c v. v \<in> NullableKind_enumerators \<longrightarrow>
      getDefaultNullability (setDefaultNullability v c) = Some v)"
  by (simp add: getDefaultNullability_def setDefaultNullability_def ObjCClassInfo_ctor_def
      ucast_enumerator_2)

theorem class_default_nullability_roundtrip_witness:
  "Unknown \<in> NullableKind_enumerators \<and>
   getDefaultNullability ObjCClassInfo_ctor = None \<and>
   getDefaultNullability (setDefaultNullability Unknown (setDefaultNullability Nullable ObjCClassInfo_ctor))
     = Some Unknown"
  using class_default_nullability_roundtrip
  by (simp add: NullableKind_enumerators_def)

text \<open>
  Claim C6. \<open>ObjCPropertyInfo\<close> has the contract of \<open>ObjCClassInfo\<close>: default
  constructed it reports no nullability, and \<open>setNullabilityAudited\<close> with an
  enumerator \<open>v\<close> followed by \<open>getNullability\<close> yields \<open>v\<close>.
\<close>

theorem property_nullability_roundtrip:
  "getNullability ObjCPropertyInfo_ctor = None \<and>
   (\<forall>p v. v \<in> NullableKind_enumerators \<longrightarrow>
      getNullability (setNullabilityAudited v p) = Some v)"
  by (simp add: getNullability_def setNullabilityAudited_def ObjCPropertyInfo_ctor_def
      ucast_enumerator_2)

theorem property_nullability_roundtrip_witness:
  "NonNullable \<in> NullableKind_enumerators \<and>
   getNullability ObjCPropertyInfo_ctor = None \<and>
   getNullability (setNullabilityAudited NonNullable ObjCPropertyInfo_ctor) = Some NonNullable"
  using property_nullability_roundtrip
  by (simp add: NullableKind_enumerators_def)

subsection \<open>The value field of a record without a value\<close>

lemma ObjCClassInfo_after_cases:
  "ObjCClassInfo_after ks = ObjCClassInfo_ctor \<or>
   HasDefaultNullability (ObjCClassInfo_after ks)"
proof (cases ks rule: rev_cases)
  case Nil
  then show ?thesis by (simp add: ObjCClassInfo_after_def)
next
  case (snoc ks' k)
  then show ?thesis by (simp add: ObjCClassInfo_after_def setDefaultNullability_def)
qed

lemma ObjCClassInfo_after_unset:
  "\<not> HasDefaultNullability (ObjCClassInfo_after ks) \<Longrightarrow>
   DefaultNullability (ObjCClassInfo_after ks) = 0"
  using ObjCClassInfo_after_cases [of ks] by (auto simp: ObjCClassInfo_ctor_def)

lemma ObjCPropertyInfo_after_cases:
  "ObjCPropertyInfo_after ks = ObjCPropertyInfo_ctor \<or>
   PropNullabilityAudited (ObjCPropertyInfo_after ks)"
proof (cases ks rule: rev_cases)
  case Nil
  then show ?thesis by (simp add: ObjCPropertyInfo_after_def)
next
  case (snoc ks' k)
  then show ?thesis by (simp add: ObjCPropertyInfo_after_def setNullabilityAudited_def)
qed

lemma ObjCPropertyInfo_after_unset:
  "\<not> PropNullabilityAudited (ObjCPropertyInfo_after ks) \<Longrightarrow>
   PropNullable (ObjCPropertyInfo_after ks) = 0"
  using ObjCPropertyInfo_after_cases [of ks] by (auto simp: ObjCPropertyInfo_ctor_def)

lemma ucast_2_32_inject:
  "(ucast (a :: 2 word) :: 32 word) = ucast (b :: 2 word) \<longleftrightarrow> a = b"
  by transfer simp

text \<open>
  Claim C8. For two \<open>ObjCClassInfo\<close> values a caller can hold, \<open>operator==\<close> is true
  exactly when the presence flags agree and, if they are set, the stored values
  agree. For any two records, also with arbitrary bits in the value fields,
  different presence flags make \<open>operator==\<close> false.
\<close>

theorem class_eq_presence_and_value:
  "(ObjCClassInfo_eq (ObjCClassInfo_after ks) (ObjCClassInfo_after ks') \<longleftrightarrow>
      HasDefaultNullability (ObjCClassInfo_after ks) = HasDefaultNullability (ObjCClassInfo_after ks') \<and>
      (HasDefaultNullability (ObjCClassInfo_after ks) \<longrightarrow>
         DefaultNullability (ObjCClassInfo_after ks) = DefaultNullability (ObjCClassInfo_after ks'))) \<and>
   (HasDefaultNullability a \<noteq> HasDefaultNullability b \<longrightarrow> \<not> ObjCClassInfo_eq a b)"
  using ObjCClassInfo_after_unset [of ks] ObjCClassInfo_after_unset [of ks']
  by (auto simp: ObjCClassInfo_eq_def)

theorem class_eq_presence_and_value_witness:
  "ObjCClassInfo_eq (ObjCClassInfo_after [Nullable, Unknown]) (ObjCClassInfo_after [Unknown]) \<and>
   HasDefaultNullability (ObjCClassInfo_after [Nullable, Unknown]) \<and>
   HasDefaultNullability (ObjCClassInfo_ctor\<lparr>DefaultNullability := 3\<rparr>)
     \<noteq> HasDefaultNullability (ObjCClassInfo_after [Unknown]) \<and>
   \<not> ObjCClassInfo_eq (ObjCClassInfo_ctor\<lparr>DefaultNullability := 3\<rparr>) (ObjCClassInfo_after [Unknown])"
  using class_eq_presence_and_value [of "[Nullable, Unknown]" "[Unknown]"
      "ObjCClassInfo_ctor\<lparr>DefaultNullability := 3\<rparr>" "ObjCClassInfo_after [Unknown]"]
  by (simp add: ObjCClassInfo_after_def setDefaultNullability_def ObjCClassInfo_ctor_def)

text \<open>
  Claim C10. After default construction and any sequence of setter calls, the value
  field of an \<open>ObjCClassInfo\<close> and of an \<open>ObjCPropertyInfo\<close> is zero when its flag is
  not set; hence on these records the field-by-field \<open>operator==\<close> holds exactly
  when the two getters return the same optional value (presence and value).
\<close>

theorem unset_value_field_is_zero:
  "(\<not> HasDefaultNullability (ObjCClassInfo_after ks) \<longrightarrow>
      DefaultNullability (ObjCClassInfo_after ks) = 0) \<and>
   (\<not> PropNullabilityAudited (ObjCPropertyInfo_after ks) \<longrightarrow>
      PropNullable (ObjCPropertyInfo_after ks) = 0) \<and>
   (ObjCClassInfo_eq (ObjCClassInfo_after ks) (ObjCClassInfo_after ks') \<longleftrightarrow>
      getDefaultNullability (ObjCClassInfo_after ks) = getDefaultNullability (ObjCClassInfo_after ks')) \<and>
   (ObjCPropertyInfo_eq (ObjCPropertyInfo_after ks) (ObjCPropertyInfo_after ks') \<longleftrightarrow>
      getNullability (ObjCPropertyInfo_after ks) = getNullability (ObjCPropertyInfo_after ks'))"
  using ObjCClassInfo_after_unset [of ks] ObjCClassInfo_after_unset [of ks']
    ObjCPropertyInfo_after_unset [of ks] ObjCPropertyInfo_after_unset [of ks']
  by (auto simp: ObjCClassInfo_eq_def ObjCPropertyInfo_eq_def getDefaultNullability_def
      getNullability_def ucast_2_32_inject)

theorem unset_value_field_is_zero_witness:
  "\<not> HasDefaultNullability (ObjCClassInfo_after []) \<and>
   DefaultNullability (ObjCClassInfo_after []) = 0 \<and>
   \<not> PropNullabilityAudited (ObjCPropertyInfo_after []) \<and>
   PropNullable (ObjCPropertyInfo_after []) = 0 \<and>
   \<not> ObjCClassInfo_eq (ObjCClassInfo_after []) (ObjCClassInfo_after [NonNullable]) \<and>
   getDefaultNullability (ObjCClassInfo_after []) \<noteq> getDefaultNullability (ObjCClassInfo_after [NonNullable])"
  using unset_value_field_is_zero [of "[]" "[NonNullable]"]
  by (simp add: ObjCClassInfo_after_def ObjCPropertyInfo_after_def ObjCClassInfo_ctor_def
      ObjCPropertyInfo_ctor_def setDefaultNullability_def getDefaultNullability_def)

section \<open>Method records\<close>

subsection \<open>Equality\<close>

text \<open>
  Claim C7. \<open>operator==\<close> of \<open>ObjCMethodInfo\<close> is structural: it is true exactly when
  the two records are the same in every field (the seven compared fields are all
  the fields there are). A record equals itself, so two records produced by the same
  calls from the same start compare equal; replacing any one field by a different
  value makes the record unequal to the original.
\<close>

theorem method_eq_structural:
  "(ObjCMethodInfo_eq lhs rhs \<longleftrightarrow> lhs = rhs) \<and>
   ObjCMethodInfo_eq m m \<and>
   (d \<noteq> DesignatedInit m \<longrightarrow> \<not> ObjCMethodInfo_eq (m\<lparr>DesignatedInit := d\<rparr>) m) \<and>
   (f \<noteq> FactoryAsInit m \<longrightarrow> \<not> ObjCMethodInfo_eq (m\<lparr>FactoryAsInit := f\<rparr>) m) \<and>
   (u \<noteq> Unavailable m \<longrightarrow> \<not> ObjCMethodInfo_eq (m\<lparr>Unavailable := u\<rparr>) m) \<and>
   (msg \<noteq> UnavailableMsg m \<longrightarrow> \<not> ObjCMethodInfo_eq (m\<lparr>UnavailableMsg := msg\<rparr>) m) \<and>
   (a \<noteq> NullabilityAudited m \<longrightarrow> \<not> ObjCMethodInfo_eq (m\<lparr>NullabilityAudited := a\<rparr>) m) \<and>
   (n \<noteq> NumAdjustedNullable m \<longrightarrow> \<not> ObjCMethodInfo_eq (m\<lparr>NumAdjustedNullable := n\<rparr>) m) \<and>
   (p \<noteq> NullabilityPayload m \<longrightarrow> \<not> ObjCMethodInfo_eq (m\<lparr>NullabilityPayload := p\<rparr>) m)"
  by (auto simp: ObjCMethodInfo_eq_def)

theorem method_eq_structural_witness:
  "True \<noteq> DesignatedInit ObjCMethodInfo_ctor \<and>
   \<not> ObjCMethodInfo_eq (ObjCMethodInfo_ctor\<lparr>DesignatedInit := True\<rparr>) ObjCMethodInfo_ctor \<and>
   2 \<noteq> FactoryAsInit ObjCMethodInfo_ctor \<and>
   \<not> ObjCMethodInfo_eq (ObjCMethodInfo_ctor\<lparr>FactoryAsInit := 2\<rparr>) ObjCMethodInfo_ctor \<and>
   True \<noteq> Unavailable ObjCMethodInfo_ctor \<and>
   \<not> ObjCMethodInfo_eq (ObjCMethodInfo_ctor\<lparr>Unavailable := True\<rparr>) ObjCMethodInfo_ctor \<and>
   ''use init'' \<noteq> UnavailableMsg ObjCMethodInfo_ctor \<and>
   \<not> ObjCMethodInfo_eq (ObjCMethodInfo_ctor\<lparr>UnavailableMsg := ''use init''\<rparr>) ObjCMethodInfo_ctor \<and>
   True \<noteq> NullabilityAudited ObjCMethodInfo_ctor \<and>
   \<not> ObjCMethodInfo_eq (ObjCMethodInfo_ctor\<lparr>NullabilityAudited := True\<rparr>) ObjCMethodInfo_ctor \<and>
   1 \<noteq> NumAdjustedNullable ObjCMethodInfo_ctor \<and>
   \<not> ObjCMethodInfo_eq (ObjCMethodInfo_ctor\<lparr>NumAdjustedNullable := 1\<rparr>) ObjCMethodInfo_ctor \<and>
   4 \<noteq> NullabilityPayload ObjCMethodInfo_ctor \<and>
   \<not> ObjCMethodInfo_eq (ObjCMethodInfo_ctor\<lparr>NullabilityPayload := 4\<rparr>) ObjCMethodInfo_ctor"
  using method_eq_structural [of ObjCMethodInfo_ctor ObjCMethodInfo_ctor ObjCMethodInfo_ctor
      True 2 True "''use init''" True 1 4]
  by (simp add: ObjCMethodInfo_ctor_def Infer_def)

subsection \<open>Reading a position\<close>

lemma unat_ucast_count:
  "unat (ucast (n :: 8 word) :: 32 word) = unat n"
  by transfer simp

lemma count_less_position_iff:
  "ucast (n :: 8 word) < (position :: 32 word) \<longleftrightarrow> unat n < unat position"
  by (simp add: word_less_nat_alt unat_ucast_count)

lemma unat_index_plus_1:
  "unat (index :: 32 word) < 2 ^ 32 - 1 \<Longrightarrow> unat (index + 1) = unat index + 1"
  by (simp add: unat_word_ariths)

text \<open>
  Claim C4, as the code has it. On a record with \<open>NullabilityAudited\<close> set, reading
  a position that exceeds \<open>NumAdjustedNullable\<close> returns \<open>NonNullable\<close>; and for every
  parameter index below \<open>UINT_MAX\<close>, \<open>getParamTypeInfo index\<close> returns \<open>NonNullable\<close>
  whenever the number \<open>index + 1\<close> exceeds \<open>NumAdjustedNullable\<close>. The positions and
  the count are compared as numbers (\<open>unat\<close>). \<open>getReturnTypeInfo\<close> reads position 0,
  which no count is below.
\<close>

theorem getters_fall_back_to_NonNullable:
  "NullabilityAudited m \<Longrightarrow>
   (unat (NumAdjustedNullable m) < unat position \<longrightarrow> getTypeInfo position m = Inr NonNullable) \<and>
   (unat index < 2 ^ 32 - 1 \<longrightarrow> unat (NumAdjustedNullable m) < unat index + 1 \<longrightarrow>
      getParamTypeInfo index m = Inr NonNullable) \<and>
   getReturnTypeInfo m = getTypeInfo 0 m"
  by (simp add: getTypeInfo_def getParamTypeInfo_def getReturnTypeInfo_def
      count_less_position_iff unat_index_plus_1)

theorem getters_fall_back_to_NonNullable_witness:
  "NullabilityAudited (audited_method 1\<lparr>NullabilityPayload := 0xFF\<rparr>) \<and>
   unat (NumAdjustedNullable (audited_method 1\<lparr>NullabilityPayload := 0xFF\<rparr>)) < unat (2 :: 32 word) \<and>
   unat (1 :: 32 word) < 2 ^ 32 - 1 \<and>
   unat (NumAdjustedNullable (audited_method 1\<lparr>NullabilityPayload := 0xFF\<rparr>)) < unat (1 :: 32 word) + 1 \<and>
   getTypeInfo 2 (audited_method 1\<lparr>NullabilityPayload := 0xFF\<rparr>) = Inr NonNullable \<and>
   getParamTypeInfo 1 (audited_method 1\<lparr>NullabilityPayload := 0xFF\<rparr>) = Inr NonNullable"
  using getters_fall_back_to_NonNullable
    [of "audited_method 1\<lparr>NullabilityPayload := 0xFF\<rparr>" 2 1]
  by (simp add: audited_method_def ObjCMethodInfo_ctor_def)

text \<open>
  At the parameter index \<open>UINT_MAX\<close> the sum \<open>index + 1\<close> of the source wraps to 0:
  on an audited record with one adjusted position and a \<open>Nullable\<close> return type,
  the number \<open>index + 1\<close> exceeds the count, and \<open>getParamTypeInfo\<close> returns the
  return type's \<open>Nullable\<close>, not \<open>NonNullable\<close>.
\<close>

theorem param_index_wraps_counterexample:
  "NullabilityAudited (audited_method 1\<lparr>NullabilityPayload := 1\<rparr>) \<and>
   unat (NumAdjustedNullable (audited_method 1\<lparr>NullabilityPayload := 1\<rparr>))
     < unat (0xFFFFFFFF :: 32 word) + 1 \<and>
   getParamTypeInfo 0xFFFFFFFF (audited_method 1\<lparr>NullabilityPayload := 1\<rparr>) = Inr Nullable \<and>
   getParamTypeInfo 0xFFFFFFFF (audited_method 1\<lparr>NullabilityPayload := 1\<rparr>) \<noteq> Inr NonNullable"
proof -
  have wrap: "(0xFFFFFFFF :: 32 word) + 1 = 0"
    by simp
  show ?thesis
    unfolding getParamTypeInfo_def wrap
    by (simp add: getTypeInfo_def audited_method_def ObjCMethodInfo_ctor_def
        NullableKindSize_def NullableKindMask_def Nullable_def NonNullable_def)
qed

text \<open>
  Claim C3, as the code has it. On a record whose \<open>NullabilityAudited\<close> is not set,
  both getters fail the assertion "Checking the type adjustment on non-audited
  method.": with assertions enabled a read is valid only on an audited record, and
  no getter returns \<open>Unknown\<close> in place of the missing audit.
\<close>

theorem getters_assert_audited:
  "\<not> NullabilityAudited m \<Longrightarrow>
   getReturnTypeInfo m = Inl (AssertionFailed Assert_NullabilityAudited) \<and>
   getParamTypeInfo index m = Inl (AssertionFailed Assert_NullabilityAudited)"
  by (simp add: getTypeInfo_def getParamTypeInfo_def getReturnTypeInfo_def)

theorem getters_assert_audited_witness:
  "\<not> NullabilityAudited ObjCMethodInfo_ctor \<and>
   getReturnTypeInfo ObjCMethodInfo_ctor = Inl (AssertionFailed Assert_NullabilityAudited) \<and>
   getParamTypeInfo 0 ObjCMethodInfo_ctor = Inl (AssertionFailed Assert_NullabilityAudited)"
  using getters_assert_audited [of ObjCMethodInfo_ctor 0]
  by (simp add: ObjCMethodInfo_ctor_def)

text \<open>
  The claim as the specification states it fails on the default constructed record:
  it is not audited, and reading its return type is a failed assertion, not
  \<open>Unknown\<close>.
\<close>

theorem unaudited_read_counterexample:
  "\<not> NullabilityAudited ObjCMethodInfo_ctor \<and>
   assertion_fires (getReturnTypeInfo ObjCMethodInfo_ctor) \<and>
   getReturnTypeInfo ObjCMethodInfo_ctor \<noteq> Inr Unknown"
  by (simp add: getTypeInfo_def getReturnTypeInfo_def ObjCMethodInfo_ctor_def)

subsection \<open>Writing a position\<close>

lemma unat_index_times_2:
  "unat (index :: 32 word) < 32 \<Longrightarrow> unat (index * 2) = 2 * unat index"
  by (simp add: unat_word_ariths)

lemma unat_position_times_2:
  assumes "\<not> ucast (n :: 8 word) < (j :: 32 word)"
  shows "unat (j * 2) = 2 * unat j"
proof -
  have "unat (ucast n :: 32 word) = unat n"
    by transfer simp
  moreover have "unat n < 256"
    using unsigned_less [of n, where ?'a = nat] by simp
  moreover from assms have "unat j \<le> unat (ucast n :: 32 word)"
    by (simp add: word_le_nat_alt not_less)
  ultimately have "unat j < 256"
    by simp
  then show ?thesis
    by (simp add: unat_word_ariths)
qed

lemma kind_bits:
  assumes "kind < (3 :: 32 word)" and "bit kind i"
  shows "i < 2"
proof -
  from assms(1) have "kind < 2 ^ 2"
    by (simp add: word_less_nat_alt)
  then have low: "kind AND mask 2 = kind"
    by (rule less_mask_eq)
  from assms(2) have "bit (kind AND mask 2) i"
    by (simp only: low)
  then show ?thesis
    by (simp add: bit_and_iff bit_mask_iff)
qed

lemma enumerator_below_mask:
  "kind \<in> NullableKind_enumerators \<Longrightarrow> kind < 3"
  by (auto simp: NullableKind_enumerators_def NonNullable_def Nullable_def Unknown_def)

lemma ucast_push_bit_kind:
  "n + 2 \<le> 32 \<Longrightarrow> kind < 3 \<Longrightarrow>
   (ucast (push_bit n (kind :: 32 word)) :: 64 word) = push_bit n (ucast kind)"
  by (auto simp: bit_eq_iff bit_push_bit_iff bit_ucast_iff dest: kind_bits)

text \<open>
  Which calls of \<open>addTypeInfo\<close> fail an assertion: those with an index above 32, a
  kind that is no enumerator, or a record that is not audited. Index 32 passes.
\<close>

lemma addTypeInfo_assertion_fires_iff:
  "assertion_fires (addTypeInfo index kind m) \<longleftrightarrow>
     32 < unat index \<or> \<not> kind < 3 \<or> \<not> NullabilityAudited m"
  by (auto simp: addTypeInfo_def NullableKindSize_def NullableKindMask_def Let_def)

text \<open>
  For the positions 0 to 15 the shift is defined, and the call ORs the kind into the
  payload at bit offset \<open>2 * index\<close>.
\<close>

lemma addTypeInfo_below_16:
  "NullabilityAudited m \<Longrightarrow> unat index < 16 \<Longrightarrow> kind < 3 \<Longrightarrow>
   addTypeInfo index kind m =
     Inr (m\<lparr>NullabilityPayload :=
              NullabilityPayload m OR push_bit (2 * unat index) (ucast kind)\<rparr>)"
  by (simp add: addTypeInfo_def NullableKindSize_def NullableKindMask_def Let_def
      unat_index_times_2 ucast_push_bit_kind)

text \<open>
  A call that returns has changed no field but the payload, and has cleared no bit
  of the payload.
\<close>

lemma addTypeInfo_frame:
  assumes "addTypeInfo index kind m = Inr m'"
  shows "m' = m\<lparr>NullabilityPayload := NullabilityPayload m'\<rparr>"
    and "NullabilityPayload m' AND NullabilityPayload m = NullabilityPayload m"
  using assms
  by (auto simp: addTypeInfo_def Let_def bit_eq_iff bit_and_iff bit_or_iff split: if_splits)

text \<open>
  Reading back. A write at one of the positions 0 to 15 whose field of the payload
  was zero is read back as written, and leaves every other position as it read
  before; hence a sequence of writes at distinct positions below 16, on fields that
  were zero, completes and every position reads back as written.
\<close>

lemma three_is_mask_2:
  "(3 :: 64 word) = mask 2"
  by (simp add: mask_eq_exp_minus_1)

lemma payload_field_written:
  "kind < 3 \<Longrightarrow> i < 32 \<Longrightarrow>
   drop_bit (2 * i) ((p :: 64 word) OR push_bit (2 * i) (ucast (kind :: 32 word))) AND 3
     = (drop_bit (2 * i) p AND 3) OR ucast kind"
  by (auto simp: three_is_mask_2 bit_eq_iff bit_and_iff bit_or_iff bit_drop_bit_eq
      bit_push_bit_iff bit_ucast_iff bit_mask_iff dest: kind_bits)

lemma payload_field_other:
  assumes k: "kind < 3" and ij: "i \<noteq> j"
  shows "drop_bit (2 * j) ((p :: 64 word) OR push_bit (2 * i) (ucast (kind :: 32 word))) AND 3
     = drop_bit (2 * j) p AND 3"
proof -
  have "\<not> (2 * i \<le> 2 * j + n \<and> bit kind (2 * j + n - 2 * i))" if "n < 2" for n
  proof
    assume a: "2 * i \<le> 2 * j + n \<and> bit kind (2 * j + n - 2 * i)"
    then have "2 * j + n - 2 * i < 2"
      using kind_bits [OF k] by blast
    with a that ij show False
      by arith
  qed
  then show ?thesis
    by (auto simp: three_is_mask_2 bit_eq_iff bit_and_iff bit_or_iff bit_drop_bit_eq
        bit_push_bit_iff bit_ucast_iff bit_mask_iff)
qed

lemma ucast_kind_back:
  "(ucast (ucast (kind :: 32 word) :: 64 word) :: 32 word) = kind"
  by (auto simp: bit_eq_iff bit_ucast_iff dest: bit_imp_le_length)

lemma getTypeInfo_in_payload:
  "NullabilityAudited m \<Longrightarrow> \<not> ucast (NumAdjustedNullable m) < index \<Longrightarrow> unat index < 32 \<Longrightarrow>
   getTypeInfo index m = Inr (ucast (drop_bit (2 * unat index) (NullabilityPayload m) AND 3))"
  by (simp add: getTypeInfo_def NullableKindSize_def NullableKindMask_def unat_index_times_2)

lemma addTypeInfo_then_getTypeInfo:
  assumes "NullabilityAudited m" "unat index < 16" "kind < 3"
    and "\<not> ucast (NumAdjustedNullable m) < index"
    and "getTypeInfo index m = Inr NonNullable"
    and "addTypeInfo index kind m = Inr m'"
  shows "getTypeInfo index m' = Inr kind"
proof -
  let ?P = "NullabilityPayload m OR push_bit (2 * unat index) (ucast kind)"
  let ?field = "drop_bit (2 * unat index) (NullabilityPayload m) AND 3"
  from assms have m': "m' = m\<lparr>NullabilityPayload := ?P\<rparr>"
    by (simp add: addTypeInfo_below_16)
  have "getTypeInfo index m = Inr (ucast ?field)"
    using assms(1,2,4) by (intro getTypeInfo_in_payload) simp_all
  with assms(5) have zero: "(ucast ?field :: 32 word) = 0"
    by (simp add: NonNullable_def)
  have "drop_bit (2 * unat index) ?P AND 3 = ?field OR ucast kind"
    using assms(2,3) by (intro payload_field_written) simp_all
  then have "(ucast (drop_bit (2 * unat index) ?P AND 3) :: 32 word)
      = ucast ?field OR ucast (ucast kind :: 64 word)"
    by (simp only: unsigned_or_eq)
  then have field': "(ucast (drop_bit (2 * unat index) ?P AND 3) :: 32 word) = kind"
    by (simp only: zero ucast_kind_back) simp
  have "getTypeInfo index m'
      = Inr (ucast (drop_bit (2 * unat index) (NullabilityPayload m') AND 3))"
    using assms(1,2,4) by (intro getTypeInfo_in_payload) (simp_all add: m')
  moreover have "NullabilityPayload m' = ?P"
    by (simp add: m')
  ultimately show ?thesis
    by (simp only: field')
qed

lemma addTypeInfo_keeps_other_positions:
  assumes "NullabilityAudited m" "unat index < 16" "kind < 3" "index \<noteq> j"
    and "addTypeInfo index kind m = Inr m'"
  shows "getTypeInfo j m' = getTypeInfo j m"
proof -
  let ?P = "NullabilityPayload m OR push_bit (2 * unat index) (ucast kind)"
  from assms have m': "m' = m\<lparr>NullabilityPayload := ?P\<rparr>"
    by (simp add: addTypeInfo_below_16)
  from assms(4) have "unat index \<noteq> unat j"
    by (simp add: word_unat_eq_iff)
  with assms(3)
  have "drop_bit (2 * unat j) ?P AND 3 = drop_bit (2 * unat j) (NullabilityPayload m) AND 3"
    by (rule payload_field_other)
  then have "drop_bit (unat (j * 2)) ?P AND 3
      = drop_bit (unat (j * 2)) (NullabilityPayload m) AND 3"
    if "\<not> ucast (NumAdjustedNullable m) < j"
    using that by (simp only: unat_position_times_2)
  then show ?thesis
    unfolding getTypeInfo_def m' NullableKindSize_def NullableKindMask_def
    by simp
qed

lemma addTypeInfo_calls_roundtrip_below_16:
  assumes "NullabilityAudited m" and "distinct (map fst ws)"
    and "\<forall>(i, k) \<in> set ws. unat i < 16 \<and> k < 3 \<and> \<not> ucast (NumAdjustedNullable m) < i \<and>
           getTypeInfo i m = Inr NonNullable"
  shows "\<exists>m'. addTypeInfo_calls ws m = Inr m' \<and>
           NullabilityAudited m' \<and> NumAdjustedNullable m' = NumAdjustedNullable m \<and>
           (\<forall>j. j \<notin> fst ` set ws \<longrightarrow> getTypeInfo j m' = getTypeInfo j m) \<and>
           (\<forall>(i, k) \<in> set ws. getTypeInfo i m' = Inr k)"
  using assms
proof (induction ws arbitrary: m)
  case Nil
  then show ?case by simp
next
  case (Cons w ws)
  obtain i k where w: "w = (i, k)" by (cases w)
  from Cons.prems w have ik: "unat i < 16" "k < 3" "\<not> ucast (NumAdjustedNullable m) < i"
    "getTypeInfo i m = Inr NonNullable"
    by simp_all
  let ?m1 = "m\<lparr>NullabilityPayload := NullabilityPayload m OR push_bit (2 * unat i) (ucast k)\<rparr>"
  have step: "addTypeInfo i k m = Inr ?m1"
    using Cons.prems(1) ik(1,2) by (rule addTypeInfo_below_16)
  have other: "getTypeInfo j ?m1 = getTypeInfo j m" if "i \<noteq> j" for j
    using Cons.prems(1) ik(1,2) that step by (rule addTypeInfo_keeps_other_positions)
  have here: "getTypeInfo i ?m1 = Inr k"
    using Cons.prems(1) ik step by (rule addTypeInfo_then_getTypeInfo)
  have fresh: "i \<notin> fst ` set ws"
    using Cons.prems(2) w by simp
  have "\<exists>m'. addTypeInfo_calls ws ?m1 = Inr m' \<and>
           NullabilityAudited m' \<and> NumAdjustedNullable m' = NumAdjustedNullable ?m1 \<and>
           (\<forall>j. j \<notin> fst ` set ws \<longrightarrow> getTypeInfo j m' = getTypeInfo j ?m1) \<and>
           (\<forall>(i, k) \<in> set ws. getTypeInfo i m' = Inr k)"
  proof (rule Cons.IH)
    show "NullabilityAudited ?m1"
      using Cons.prems(1) by simp
    show "distinct (map fst ws)"
      using Cons.prems(2) by simp
    show "\<forall>(i', k') \<in> set ws. unat i' < 16 \<and> k' < 3 \<and>
            \<not> ucast (NumAdjustedNullable ?m1) < i' \<and> getTypeInfo i' ?m1 = Inr NonNullable"
    proof (clarify, intro conjI)
      fix i' k' assume mem: "(i', k') \<in> set ws"
      with Cons.prems(3) show "unat i' < 16" "k' < 3"
        by auto
      from mem Cons.prems(3) show "\<not> ucast (NumAdjustedNullable ?m1) < i'"
        by auto
      from mem fresh have "i \<noteq> i'"
        by force
      then have "getTypeInfo i' ?m1 = getTypeInfo i' m"
        by (rule other)
      with mem Cons.prems(3) show "getTypeInfo i' ?m1 = Inr NonNullable"
        by auto
    qed
  qed
  then obtain m' where m': "addTypeInfo_calls ws ?m1 = Inr m'" "NullabilityAudited m'"
    "NumAdjustedNullable m' = NumAdjustedNullable ?m1"
    "\<forall>j. j \<notin> fst ` set ws \<longrightarrow> getTypeInfo j m' = getTypeInfo j ?m1"
    "\<forall>(i, k) \<in> set ws. getTypeInfo i m' = Inr k"
    by blast
  have "addTypeInfo_calls (w # ws) m = Inr m'"
    using step m'(1) by (simp add: w)
  moreover have "NumAdjustedNullable m' = NumAdjustedNullable m"
    using m'(3) by simp
  moreover have "\<forall>j. j \<notin> fst ` set (w # ws) \<longrightarrow> getTypeInfo j m' = getTypeInfo j m"
    using m'(4) other by (auto simp: w)
  moreover have "\<forall>(i, k) \<in> set (w # ws). getTypeInfo i m' = Inr k"
    using m'(4,5) fresh here by (auto simp: w)
  ultimately show ?case
    using m'(2) by blast
qed

text \<open>
  From position 16 on the shift has no defined value. Whatever \<open>unsigned\<close> value it
  leaves in \<open>kindValue\<close>, the \<open>|=\<close> cannot reach the upper half of the payload: the
  positions 16 to 31 read as before.
\<close>

lemma drop_bit_ucast_unsigned:
  "32 \<le> n \<Longrightarrow> drop_bit n (ucast (x :: 32 word) :: 64 word) = 0"
  by (auto simp: bit_eq_iff bit_drop_bit_eq bit_ucast_iff dest: bit_imp_le_length)

lemma kindValue_misses_upper_positions:
  "16 \<le> unat index \<Longrightarrow> unat index \<le> 31 \<Longrightarrow>
   getTypeInfo index (m\<lparr>NullabilityPayload := NullabilityPayload m OR ucast (kindValue :: 32 word)\<rparr>)
     = getTypeInfo index m"
  by (simp add: getTypeInfo_def NullableKindSize_def unat_index_times_2 drop_bit_ucast_unsigned)

text \<open>
  Claim C2 (a call faults exactly when the record is not audited or
  \<open>index * 2 \<ge> 64\<close>), evaluated on the code at index 32 of an audited record: no
  assertion fires, because the first assertion is \<open>index <= 64 / 2\<close>; the call goes
  on to a shift by 64 bits.
\<close>

theorem addTypeInfo_index_32_passes_assertions:
  "NullabilityAudited (audited_method 31) \<and>
   \<not> assertion_fires (addTypeInfo 32 Nullable (audited_method 31)) \<and>
   addTypeInfo 32 Nullable (audited_method 31) = Inl UndefinedShift"
  by (simp add: addTypeInfo_def NullableKindSize_def NullableKindMask_def Nullable_def
      audited_method_def ObjCMethodInfo_ctor_def)

text \<open>
  Claim C9 (a call in range changes only the payload, by an OR of the kind at bit
  offset \<open>index * 2\<close>), evaluated on the code at position 31 of an audited record:
  the call does not return the record with \<open>Unknown\<close> ORed in at bit offset 62; its
  shift by 62 bits of a 32-bit value is undefined.
\<close>

theorem addTypeInfo_position_31_no_or_at_offset:
  "addTypeInfo 31 Unknown (audited_method 31) \<noteq>
     Inr (audited_method 31
          \<lparr>NullabilityPayload := NullabilityPayload (audited_method 31) OR push_bit (31 * 2) 2\<rparr>) \<and>
   addTypeInfo 31 Unknown (audited_method 31) = Inl UndefinedShift"
  by (simp add: addTypeInfo_def NullableKindSize_def NullableKindMask_def Unknown_def
      audited_method_def ObjCMethodInfo_ctor_def)

text \<open>
  Claim C1 (writing the positions 0 to 31 once each and reading them back returns
  the values written), evaluated on the code for an audited record with
  \<open>NumAdjustedNullable = 31\<close>: the writes of the positions 0 to 15 succeed, the write
  of position 16 is a shift of a 32-bit value by 32 bits, and the sequence of the
  32 writes does not complete.
\<close>

theorem roundtrip_stops_at_position_16:
  "addTypeInfo_calls
     [(0, Nullable), (1, Unknown), (2, NonNullable), (3, Nullable),
      (4, Unknown), (5, NonNullable), (6, Nullable), (7, Unknown),
      (8, NonNullable), (9, Nullable), (10, Unknown), (11, NonNullable),
      (12, Nullable), (13, Unknown), (14, NonNullable), (15, Nullable)]
     (audited_method 31) = Inr (audited_method 31\<lparr>NullabilityPayload := 0x49249249\<rparr>) \<and>
   addTypeInfo 16 Unknown (audited_method 31\<lparr>NullabilityPayload := 0x49249249\<rparr>)
     = Inl UndefinedShift \<and>
   addTypeInfo_calls
     [(0, Nullable), (1, Unknown), (2, NonNullable), (3, Nullable),
      (4, Unknown), (5, NonNullable), (6, Nullable), (7, Unknown),
      (8, NonNullable), (9, Nullable), (10, Unknown), (11, NonNullable),
      (12, Nullable), (13, Unknown), (14, NonNullable), (15, Nullable),
      (16, Unknown), (17, NonNullable), (18, Nullable), (19, Unknown),
      (20, NonNullable), (21, Nullable), (22, Unknown), (23, NonNullable),
      (24, Nullable), (25, Unknown), (26, NonNullable), (27, Nullable),
      (28, Unknown), (29, NonNullable), (30, Nullable), (31, Unknown)]
     (audited_method 31) = Inl UndefinedShift"
  by (simp add: addTypeInfo_def NullableKindSize_def NullableKindMask_def Let_def
      Nullable_def Unknown_def NonNullable_def audited_method_def ObjCMethodInfo_ctor_def)

end
